theory Spec2Isabelle
  imports Main "HOL-Library.Word" "HOL-Library.Multiset"
begin

unbundle bit_operations_syntax

section \<open>The platform abstraction layer of crown: \<^verbatim>\<open>src/core/os.cpp\<close>\<close>

text \<open>
  Every function of \<^verbatim>\<open>os.cpp\<close> is a thin wrapper around calls of the operating system,
  with one body per platform family chosen by conditional compilation. The functions are
  embedded as HOL functions over an explicit state of the machine the program runs on:
  one equation for the \<^verbatim>\<open>CROWN_PLATFORM_POSIX\<close> body and one for the
  \<^verbatim>\<open>CROWN_PLATFORM_WINDOWS\<close> body. The operating system is not code of the
  repository; the part of it that the wrappers can observe is described below, call by call,
  after the POSIX and Win32 documentation of the calls.
\<close>

subsection \<open>Build configuration and assertions\<close>

datatype posix_platform = LINUX | ANDROID | OSX

datatype failure =
    AssertionFailed string \<comment> \<open>\<^verbatim>\<open>CE_ASSERT\<close> aborted the process; the string names the failed call\<close>
  | UndefinedBehaviour string \<comment> \<open>the C++ reads an uninitialised object or a null pointer\<close>

text \<open>
  Modelled from the spec: \<^verbatim>\<open>CE_ASSERT\<close> and \<^verbatim>\<open>CE_UNUSED\<close> are macros of
  \<^verbatim>\<open>error.h\<close>, which is not among the sources. The spec calls a failed assertion a
  fatal error, a hard abort from which the caller cannot recover. Every use in
  \<^verbatim>\<open>os.cpp\<close> is followed by \<^verbatim>\<open>CE_UNUSED(err)\<close>, which is needed only when the
  assertion can be compiled out; whether it is compiled in is the parameter \<open>debug\<close>.
\<close>

definition CE_ASSERT :: "bool \<Rightarrow> bool \<Rightarrow> string \<Rightarrow> failure + unit" where
  "CE_ASSERT debug condition msg =
     (if debug \<and> \<not> condition then Inl (AssertionFailed msg) else Inr ())"

subsection \<open>The POSIX machine\<close>

record stat =
  st_mode :: "32 word"
  st_mtime :: "64 word"

record posix_file =
  p_stat :: stat
  p_data :: string \<comment> \<open>the bytes of a regular file, the target of a symbolic link\<close>

record timespec =
  tv_sec :: "64 word"
  tv_nsec :: "64 word"

record timeval =
  tv_sec' :: "64 word"
  tv_usec :: "64 word"

text \<open>
  The state of a POSIX machine, as far as the calls of \<^verbatim>\<open>os.cpp\<close> observe it. How a
  path name leads to an entry (its leading components, symbolic links, permissions) and
  what a shell does with a command line are the operating system's business: the state
  records the outcome, it does not compute it.
\<close>

record posix =
  pfiles :: "string \<rightharpoonup> posix_file"
    \<comment> \<open>the entry a path name leads to, without following a symbolic link at its end;
        \<open>None\<close> when the path name leads to no entry\<close>
  link_reaches :: "string \<Rightarrow> bool"
    \<comment> \<open>for a path name whose entry is a symbolic link: whether following the link
        reaches an existing entry\<close>
  parent_missing :: "string \<Rightarrow> bool"
    \<comment> \<open>whether the directory part of a path name leads to no directory\<close>
  mknod_accepts ::
    "string \<rightharpoonup> 64 word \<times> (string \<rightharpoonup> posix_file) \<times> (string \<rightharpoonup> string list)"
    \<comment> \<open>for a path name with no entry, in an existing directory: \<open>None\<close> when the
        system refuses to create an entry there (an unwritable directory, an empty or
        over-long name, a read-only file system); otherwise the time it stamps the new
        entry with,
        and the other entries and the directory streams as the creation leaves them
        (the parent's times and stream change)\<close>
  umask :: "32 word" \<comment> \<open>the file-mode creation mask of the process\<close>
  dirs :: "string \<rightharpoonup> string list"
    \<comment> \<open>the names \<^verbatim>\<open>readdir\<close> delivers, in order, for a path \<^verbatim>\<open>opendir\<close> can open\<close>
  monotonic :: timespec \<comment> \<open>the reading of \<^verbatim>\<open>CLOCK_MONOTONIC\<close>\<close>
  timeofday :: timeval \<comment> \<open>the wall clock read by \<^verbatim>\<open>gettimeofday\<close>\<close>
  environ :: "string \<rightharpoonup> string"
  sh :: "string \<Rightarrow> string \<times> int"
    \<comment> \<open>what \<^verbatim>\<open>/bin/sh -c\<close> does with a command line: the bytes that reach its
        standard output, and its wait status\<close>
  can_popen :: bool \<comment> \<open>whether \<^verbatim>\<open>popen\<close> can create the pipe and the shell process\<close>

text \<open>The file-type bits of \<^verbatim>\<open>st_mode\<close>: octal 0170000, 0040000, 0100000 and 0120000.\<close>

definition S_IFMT :: "32 word" where "S_IFMT = 0xF000"
definition S_IFDIR :: "32 word" where "S_IFDIR = 0x4000"
definition S_IFREG :: "32 word" where "S_IFREG = 0x8000"
definition S_IFLNK :: "32 word" where "S_IFLNK = 0xA000"

text \<open>The macros of \<^verbatim>\<open>sys/stat.h\<close>; a C comparison has the value 1 or 0.\<close>

definition S_ISDIR :: "32 word \<Rightarrow> int" where
  "S_ISDIR m = (if m AND S_IFMT = S_IFDIR then 1 else 0)"

definition S_ISREG :: "32 word \<Rightarrow> int" where
  "S_ISREG m = (if m AND S_IFMT = S_IFREG then 1 else 0)"

definition S_ISLNK :: "32 word \<Rightarrow> int" where
  "S_ISLNK m = (if m AND S_IFMT = S_IFLNK then 1 else 0)"

text \<open>\<^verbatim>\<open>memset(&info, 0, sizeof(info))\<close>\<close>

definition memset_stat :: stat where
  "memset_stat = \<lparr>st_mode = 0, st_mtime = 0\<rparr>"

text \<open>
  \<^verbatim>\<open>lstat\<close> reports the entry at the path itself, also when it is a symbolic link. It
  returns 0 and fills the buffer, or returns -1 and leaves the buffer as it was.
\<close>

definition lstat :: "posix \<Rightarrow> string \<Rightarrow> stat \<Rightarrow> int \<times> stat" where
  "lstat p path info =
     (case pfiles p path of None \<Rightarrow> (-1, info) | Some f \<Rightarrow> (0, p_stat f))"

definition F_OK :: int where "F_OK = 0"

text \<open>
  \<^verbatim>\<open>access(path, F_OK)\<close> follows a symbolic link at the end of the path: 0 when the
  path name leads to an entry that is not a link, or to a link that reaches an entry;
  -1 otherwise.
\<close>

definition access :: "posix \<Rightarrow> string \<Rightarrow> int \<Rightarrow> int" where
  "access p path amode =
     (case pfiles p path of
        None \<Rightarrow> -1
      | Some f \<Rightarrow>
          if S_ISLNK (st_mode (p_stat f)) = 1 \<and> \<not> link_reaches p path then -1 else 0)"

subsection \<open>The Windows machine\<close>

record FILETIME =
  dwLowDateTime :: "32 word"
  dwHighDateTime :: "32 word"

record windows_file =
  dwFileAttributes :: "32 word"
  ftLastWriteTime :: FILETIME
  w_data :: string

text \<open>The state of a Windows machine, in the same way.\<close>

record windows =
  wfiles :: "string \<rightharpoonup> windows_file"
    \<comment> \<open>the entry a path name leads to, a link itself and not its target\<close>
  wopen :: "string \<rightharpoonup> windows_file"
    \<comment> \<open>for a path name whose entry is not a directory: the file that opening it for
        reading gives a handle to (the entry, or the target of a link); \<open>None\<close> when
        the system refuses (a sharing violation, access denied, a link without target)\<close>
  wparent_missing :: "string \<Rightarrow> bool"
    \<comment> \<open>whether the directory part of a path name leads to no directory\<close>
  wcreate ::
    "string \<rightharpoonup> windows_file \<times> (string \<rightharpoonup> windows_file) \<times> (string \<rightharpoonup> string list)"
    \<comment> \<open>\<open>None\<close> when the system refuses to create or overwrite a file at the path
        name (an invalid name, a sharing violation, access denied); otherwise the attributes and time it gives the file, and the other
        entries and the find streams as the call leaves them\<close>
  wfind :: "string \<rightharpoonup> string list"
    \<comment> \<open>the names \<^verbatim>\<open>FindFirstFile\<close> and \<^verbatim>\<open>FindNextFile\<close> deliver, in order,
        for a search pattern\<close>
  performance_counter :: "64 word"
  wenviron :: "string \<rightharpoonup> string"
  wprograms :: "string \<rightharpoonup> (string \<Rightarrow> 32 word)"
    \<comment> \<open>the executable at a path: from its command line to its exit code\<close>

definition INVALID_FILE_ATTRIBUTES :: "32 word" where
  "INVALID_FILE_ATTRIBUTES = 0xFFFFFFFF"

definition FILE_ATTRIBUTE_DIRECTORY :: "32 word" where "FILE_ATTRIBUTE_DIRECTORY = 0x10"
definition FILE_ATTRIBUTE_REPARSE_POINT :: "32 word" where
  "FILE_ATTRIBUTE_REPARSE_POINT = 0x400"

definition GetFileAttributes :: "windows \<Rightarrow> string \<Rightarrow> 32 word" where
  "GetFileAttributes w path =
     (case wfiles w path of
        None \<Rightarrow> INVALID_FILE_ATTRIBUTES
      | Some f \<Rightarrow> dwFileAttributes f)"

text \<open>\<^verbatim>\<open>_access(path, 0)\<close>: existence only.\<close>

definition win_access :: "windows \<Rightarrow> string \<Rightarrow> int \<Rightarrow> int" where
  "win_access w path amode = (case wfiles w path of None \<Rightarrow> -1 | Some f \<Rightarrow> 0)"

datatype os = Posix posix_platform posix | Windows windows

subsection \<open>File-system queries\<close>

text \<open>\<^verbatim>\<open>bool exists(const char* path)\<close>\<close>

fun exists :: "os \<Rightarrow> string \<Rightarrow> bool" where
  "exists (Posix pf p) path = (access p path F_OK \<noteq> -1)"
| "exists (Windows w) path = (win_access w path 0 \<noteq> -1)"

text \<open>\<^verbatim>\<open>bool is_directory(const char* path)\<close>\<close>

fun is_directory :: "bool \<Rightarrow> os \<Rightarrow> string \<Rightarrow> failure + bool" where
  "is_directory debug (Posix pf p) path =
     (let info = memset_stat;
          (err, info) = lstat p path info
      in case CE_ASSERT debug (err = 0) ''lstat'' of
           Inl a \<Rightarrow> Inl a
         | Inr _ \<Rightarrow> Inr (S_ISDIR (st_mode info) = 1 \<and> S_ISLNK (st_mode info) = 0))"
| "is_directory debug (Windows w) path =
     (let fattr = GetFileAttributes w path
      in Inr (fattr \<noteq> INVALID_FILE_ATTRIBUTES \<and> fattr AND FILE_ATTRIBUTE_DIRECTORY \<noteq> 0))"

text \<open>\<^verbatim>\<open>bool is_file(const char* path)\<close>\<close>

fun is_file :: "bool \<Rightarrow> os \<Rightarrow> string \<Rightarrow> failure + bool" where
  "is_file debug (Posix pf p) path =
     (let info = memset_stat;
          (err, info) = lstat p path info
      in case CE_ASSERT debug (err = 0) ''lstat'' of
           Inl a \<Rightarrow> Inl a
         | Inr _ \<Rightarrow> Inr (S_ISREG (st_mode info) = 1 \<and> S_ISLNK (st_mode info) = 0))"
| "is_file debug (Windows w) path =
     (let fattr = GetFileAttributes w path
      in Inr (fattr \<noteq> INVALID_FILE_ATTRIBUTES \<and> fattr AND FILE_ATTRIBUTE_DIRECTORY = 0))"



definition FILE_ATTRIBUTE_ARCHIVE :: "32 word" where "FILE_ATTRIBUTE_ARCHIVE = 0x20"




subsection \<open>File-system mutation\<close>



subsection \<open>Environment\<close>

text \<open>
  \<^verbatim>\<open>const char* getenv(const char* name)\<close>; \<^verbatim>\<open>NULL\<close> is \<open>None\<close>. The Windows body
  is \<^verbatim>\<open>// GetEnvironmentVariable(name, buf, size); return NULL;\<close>
\<close>

fun getenv :: "os \<Rightarrow> string \<Rightarrow> string option" where
  "getenv (Posix pf p) name = environ p name"
| "getenv (Windows w) name = None"

subsection \<open>Directory enumeration\<close>

definition opendir :: "posix \<Rightarrow> string \<Rightarrow> string list option" where
  "opendir p path = dirs p path"

text \<open>
  The \<^verbatim>\<open>while ((entry = readdir(dir)))\<close> loop over the names the stream still holds;
  \<^verbatim>\<open>vector::push_back\<close> appends a copy of the name.
\<close>

fun readdir_loop :: "string list \<Rightarrow> string list \<Rightarrow> string list" where
  "readdir_loop [] files = files"
| "readdir_loop (dname # dir) files =
     (if dname = ''.'' \<or> dname = ''..'' then readdir_loop dir files
      else readdir_loop dir (files @ [dname]))"

text \<open>
  \<^verbatim>\<open>FindFirstFile\<close> delivers the first matching name or fails when nothing matches;
  \<^verbatim>\<open>FindNextFile\<close> delivers the following ones. In the \<^verbatim>\<open>do ... while\<close> loop,
  \<^verbatim>\<open>continue\<close> goes on to the call of \<^verbatim>\<open>FindNextFile\<close>.
\<close>

definition FindFirstFile :: "windows \<Rightarrow> string \<Rightarrow> (string \<times> string list) option" where
  "FindFirstFile w pattern =
     (case wfind w pattern of
        None \<Rightarrow> None
      | Some [] \<Rightarrow> None
      | Some (name # names) \<Rightarrow> Some (name, names))"

fun find_loop :: "string \<Rightarrow> string list \<Rightarrow> string list \<Rightarrow> string list" where
  "find_loop dname [] files =
     (if dname = ''.'' \<or> dname = ''..'' then files else files @ [dname])"
| "find_loop dname (next_name # names) files =
     (if dname = ''.'' \<or> dname = ''..'' then find_loop next_name names files
      else find_loop next_name names (files @ [dname]))"

text \<open>\<^verbatim>\<open>void list_files(const char* path, Vector<DynamicString>& files)\<close>\<close>

fun list_files :: "os \<Rightarrow> string \<Rightarrow> string list \<Rightarrow> string list" where
  "list_files (Posix pf p) path files =
     (case opendir p path of
        None \<Rightarrow> files
      | Some dir \<Rightarrow> readdir_loop dir files)"
| "list_files (Windows w) path files =
     (let cur_path = path @ [CHR 0x5C, CHR ''*'']
      in case FindFirstFile w cur_path of
           None \<Rightarrow> files
         | Some (dname, names) \<Rightarrow> find_loop dname names files)"

subsection \<open>Process execution\<close>









subsection \<open>Timing and sleep\<close>

text \<open>\<^verbatim>\<open>s64 clocktime()\<close>; the arithmetic is that of \<^verbatim>\<open>s64\<close>, read with \<open>sint\<close>.\<close>

fun clocktime :: "os \<Rightarrow> 64 word" where
  "clocktime (Posix LINUX p) =
     (let now = monotonic p in tv_sec now * 1000000000 + tv_nsec now)"
| "clocktime (Posix ANDROID p) =
     (let now = monotonic p in tv_sec now * 1000000000 + tv_nsec now)"
| "clocktime (Posix OSX p) =
     (let now = timeofday p in tv_sec' now * 1000000 + tv_usec now)"
| "clocktime (Windows w) = performance_counter w"

text \<open>
  \<^verbatim>\<open>void sleep(u32 ms)\<close>. The function only issues one call of the operating system;
  the model returns that call. \<^verbatim>\<open>ms * 1000\<close> is a product of \<^verbatim>\<open>u32\<close>, and
  \<^verbatim>\<open>usleep\<close> takes a 32-bit \<^verbatim>\<open>useconds_t\<close>.
\<close>

datatype suspension =
    usleep "32 word" \<comment> \<open>microseconds\<close>
  | Sleep "32 word" \<comment> \<open>milliseconds\<close>

fun sleep :: "os \<Rightarrow> 32 word \<Rightarrow> suspension" where
  "sleep (Posix pf p) ms = usleep (ms * 1000)"
| "sleep (Windows w) ms = Sleep ms"

text \<open>The microseconds a call asks the operating system to suspend the thread for.\<close>

fun microseconds :: "suspension \<Rightarrow> nat" where
  "microseconds (usleep usec) = unat usec"
| "microseconds (Sleep ms) = unat ms * 1000"

subsection \<open>Machines for the examples\<close>

definition posix0 :: posix where
  "posix0 =
     \<lparr>pfiles = Map.empty, link_reaches = (\<lambda>path. False),
      parent_missing = (\<lambda>path. True), mknod_accepts = Map.empty,
      umask = 0x12, dirs = Map.empty,
      monotonic = \<lparr>tv_sec = 0, tv_nsec = 0\<rparr>,
      timeofday = \<lparr>tv_sec' = 0, tv_usec = 0\<rparr>,
      environ = Map.empty, sh = (\<lambda>cmd. ([], 0)), can_popen = True\<rparr>"

definition windows0 :: windows where
  "windows0 =
     \<lparr>wfiles = Map.empty, wopen = Map.empty, wparent_missing = (\<lambda>path. True),
      wcreate = Map.empty, wfind = Map.empty,
      performance_counter = 0, wenviron = Map.empty, wprograms = Map.empty\<rparr>"

text \<open>A directory with the two children of the listing example, on either machine.\<close>

definition posix_listing :: posix where
  "posix_listing = posix0\<lparr>dirs := [''/d'' \<mapsto> [''.'', ''sub'', ''..'', ''a.txt'']]\<rparr>"

definition windows_listing :: windows where
  "windows_listing =
     windows0\<lparr>wfind := [''/d'' @ [CHR 0x5C, CHR ''*''] \<mapsto> [''.'', ''..'', ''a.txt'', ''sub'']]\<rparr>"

text \<open>
  Two symbolic links on the Windows machine. A link is a reparse point; a link to a
  directory also carries the directory attribute.
\<close>

definition windows_links :: windows where
  "windows_links =
     windows0\<lparr>wfiles :=
       [''C:/data/link_to_dir'' \<mapsto>
          \<lparr>dwFileAttributes = FILE_ATTRIBUTE_DIRECTORY OR FILE_ATTRIBUTE_REPARSE_POINT,
           ftLastWriteTime = \<lparr>dwLowDateTime = 0, dwHighDateTime = 0\<rparr>, w_data = []\<rparr>,
        ''C:/data/link_to_file'' \<mapsto>
          \<lparr>dwFileAttributes = FILE_ATTRIBUTE_ARCHIVE OR FILE_ATTRIBUTE_REPARSE_POINT,
           ftLastWriteTime = \<lparr>dwLowDateTime = 0, dwHighDateTime = 0\<rparr>, w_data = []\<rparr>]\<rparr>"

text \<open>A Windows process environment in which one variable is set.\<close>

definition windows_env :: windows where
  "windows_env = windows0\<lparr>wenviron := [''CROWN_TEST'' \<mapsto> ''X'']\<rparr>"

text \<open>
  Two readings of the clocks of one machine: between them the monotonic clock advanced
  by a second and a half, and the wall clock was set back by a minute.
\<close>

definition clock_before :: posix where
  "clock_before =
     posix0\<lparr>monotonic := \<lparr>tv_sec = 10, tv_nsec = 0\<rparr>,
            timeofday := \<lparr>tv_sec' = 1500000100, tv_usec = 0\<rparr>\<rparr>"

definition clock_after :: posix where
  "clock_after =
     posix0\<lparr>monotonic := \<lparr>tv_sec = 11, tv_nsec = 500000000\<rparr>,
            timeofday := \<lparr>tv_sec' = 1500000040, tv_usec = 0\<rparr>\<rparr>"


















section \<open>Properties of directory enumeration\<close>

text \<open>Both loops append, in stream order, the names other than \<^verbatim>\<open>.\<close> and \<^verbatim>\<open>..\<close>.\<close>

lemma readdir_loop_filter:
  "readdir_loop dir files = files @ filter (\<lambda>n. n \<noteq> ''.'' \<and> n \<noteq> ''..'') dir"
  by (induction dir arbitrary: files) simp_all

lemma find_loop_filter:
  "find_loop dname names files =
     files @ filter (\<lambda>n. n \<noteq> ''.'' \<and> n \<noteq> ''..'') (dname # names)"
  by (induction names arbitrary: dname files) simp_all

lemma list_files_append:
  "list_files os path files = files @ list_files os path []"
  by (cases os) (simp_all add: readdir_loop_filter find_loop_filter split: option.splits)

lemma list_files_no_dots:
  "''.'' \<notin> set (list_files os path []) \<and> ''..'' \<notin> set (list_files os path [])"
  by (cases os) (auto simp: readdir_loop_filter find_loop_filter split: option.splits)

text \<open>
  C10. \<^verbatim>\<open>list_files(path, files)\<close> only appends to the caller's vector: what was in it
  before the call is still there, in the same order and at the same positions; when
  the path cannot be opened as a directory (\<^verbatim>\<open>opendir\<close>, respectively
  \<^verbatim>\<open>FindFirstFile\<close>, fails) the vector is left exactly as the caller passed it.
\<close>

theorem list_files_frame:
  "take (length files) (list_files os path files) = files
   \<and> (opendir p path = None \<longrightarrow> list_files (Posix pf p) path files = files)
   \<and> (FindFirstFile w (path @ [CHR 0x5C, CHR ''*'']) = None \<longrightarrow>
        list_files (Windows w) path files = files)"
proof -
  have "list_files os path files = files @ list_files os path []"
    by (rule list_files_append)
  then have "take (length files) (list_files os path files) = files"
    by simp
  then show ?thesis by simp
qed

theorem list_files_frame_witness:
  "opendir posix0 ''/none'' = None
   \<and> FindFirstFile windows0 (''/none'' @ [CHR 0x5C, CHR ''*'']) = None
   \<and> list_files (Posix LINUX posix0) ''/none'' [''kept''] = [''kept'']
   \<and> list_files (Windows windows0) ''/none'' [''kept''] = [''kept'']
   \<and> take (length [''kept'']) (list_files (Posix LINUX posix_listing) ''/d'' [''kept''])
       = [''kept'']"
  using list_files_frame [of "[''kept'']" "Posix LINUX posix_listing" "''/none''"
      posix0 LINUX windows0]
    list_files_frame [of "[''kept'']" "Posix LINUX posix_listing" "''/d''"
      posix0 LINUX windows0]
  by (simp add: opendir_def FindFirstFile_def posix0_def windows0_def)

text \<open>
  C6. The sequence \<^verbatim>\<open>list_files\<close> produces is what it appends to the vector. For a
  directory whose children are exactly \<^verbatim>\<open>a.txt\<close> and \<^verbatim>\<open>sub\<close>, that is, whose
  stream delivers, besides \<^verbatim>\<open>.\<close> and \<^verbatim>\<open>..\<close>, these two names once each in any
  order, the produced sequence holds exactly \<^verbatim>\<open>a.txt\<close> and \<^verbatim>\<open>sub\<close>, each once,
  in some order. For every path the produced sequence contains neither \<^verbatim>\<open>.\<close> nor
  \<^verbatim>\<open>..\<close>, and for a path that cannot be opened as a directory it is empty;
  \<^verbatim>\<open>list_files\<close> has no failure outcome.
\<close>

theorem list_files_children:
  "(opendir p path = Some dir \<longrightarrow>
      filter_mset (\<lambda>n. n \<noteq> ''.'' \<and> n \<noteq> ''..'') (mset dir) = mset [''a.txt'', ''sub''] \<longrightarrow>
      mset (drop (length files) (list_files (Posix pf p) path files))
        = mset [''a.txt'', ''sub''])
   \<and> (FindFirstFile w (path @ [CHR 0x5C, CHR ''*'']) = Some (dname, names) \<longrightarrow>
        filter_mset (\<lambda>n. n \<noteq> ''.'' \<and> n \<noteq> ''..'') (mset (dname # names))
          = mset [''a.txt'', ''sub''] \<longrightarrow>
      mset (drop (length files) (list_files (Windows w) path files))
        = mset [''a.txt'', ''sub''])
   \<and> ''.'' \<notin> set (drop (length files) (list_files os path files))
   \<and> ''..'' \<notin> set (drop (length files) (list_files os path files))
   \<and> (opendir p path = None \<longrightarrow>
        drop (length files) (list_files (Posix pf p) path files) = [])
   \<and> (FindFirstFile w (path @ [CHR 0x5C, CHR ''*'']) = None \<longrightarrow>
        drop (length files) (list_files (Windows w) path files) = [])"
proof -
  have produced: "drop (length files) (list_files os' path files) = list_files os' path []"
    for os'
    by (subst list_files_append) simp
  have posix: "mset (list_files (Posix pf p) path []) = mset [''a.txt'', ''sub'']"
    if "opendir p path = Some dir"
       "filter_mset (\<lambda>n. n \<noteq> ''.'' \<and> n \<noteq> ''..'') (mset dir) = mset [''a.txt'', ''sub'']"
  proof -
    have "mset (list_files (Posix pf p) path [])
            = filter_mset (\<lambda>n. n \<noteq> ''.'' \<and> n \<noteq> ''..'') (mset dir)"
      using that(1) by (simp add: readdir_loop_filter)
    then show ?thesis using that(2) by (simp only:)
  qed
  have win: "mset (list_files (Windows w) path []) = mset [''a.txt'', ''sub'']"
    if "FindFirstFile w (path @ [CHR 0x5C, CHR ''*'']) = Some (dname, names)"
       "filter_mset (\<lambda>n. n \<noteq> ''.'' \<and> n \<noteq> ''..'') (mset (dname # names))
          = mset [''a.txt'', ''sub'']"
  proof -
    have "mset (list_files (Windows w) path [])
            = filter_mset (\<lambda>n. n \<noteq> ''.'' \<and> n \<noteq> ''..'') (mset (dname # names))"
      using that(1) by (simp add: find_loop_filter del: filter.simps mset.simps)
    then show ?thesis using that(2) by (simp only:)
  qed
  have closed_p: "list_files (Posix pf p) path [] = []" if "opendir p path = None"
    using that by simp
  have closed_w: "list_files (Windows w) path [] = []"
    if "FindFirstFile w (path @ [CHR 0x5C, CHR ''*'']) = None"
    using that by simp
  show ?thesis
    using posix win closed_p closed_w list_files_no_dots [of os path]
    by (simp only: produced) blast
qed

theorem list_files_children_witness:
  "opendir posix_listing ''/d'' = Some [''.'', ''sub'', ''..'', ''a.txt'']
   \<and> filter_mset (\<lambda>n. n \<noteq> ''.'' \<and> n \<noteq> ''..'') (mset [''.'', ''sub'', ''..'', ''a.txt''])
       = mset [''a.txt'', ''sub'']
   \<and> mset (drop (length [''old'']) (list_files (Posix LINUX posix_listing) ''/d'' [''old'']))
       = mset [''a.txt'', ''sub'']
   \<and> FindFirstFile windows_listing (''/d'' @ [CHR 0x5C, CHR ''*''])
       = Some (''.'', [''..'', ''a.txt'', ''sub''])
   \<and> filter_mset (\<lambda>n. n \<noteq> ''.'' \<and> n \<noteq> ''..'') (mset (''.'' # [''..'', ''a.txt'', ''sub'']))
       = mset [''a.txt'', ''sub'']
   \<and> mset (drop (length [''old'']) (list_files (Windows windows_listing) ''/d'' [''old'']))
       = mset [''a.txt'', ''sub'']
   \<and> opendir posix0 ''/d'' = None
   \<and> drop (length [''old'']) (list_files (Posix LINUX posix0) ''/d'' [''old'']) = []
   \<and> FindFirstFile windows0 (''/d'' @ [CHR 0x5C, CHR ''*'']) = None
   \<and> drop (length [''old'']) (list_files (Windows windows0) ''/d'' [''old'']) = []"
proof -
  have h1: "opendir posix_listing ''/d'' = Some [''.'', ''sub'', ''..'', ''a.txt'']"
    by (simp add: opendir_def posix_listing_def posix0_def)
  have h2: "filter_mset (\<lambda>n. n \<noteq> ''.'' \<and> n \<noteq> ''..'') (mset [''.'', ''sub'', ''..'', ''a.txt''])
       = mset [''a.txt'', ''sub'']"
    by simp
  have h3: "FindFirstFile windows_listing (''/d'' @ [CHR 0x5C, CHR ''*''])
       = Some (''.'', [''..'', ''a.txt'', ''sub''])"
    by (simp add: FindFirstFile_def windows_listing_def windows0_def)
  have h4: "filter_mset (\<lambda>n. n \<noteq> ''.'' \<and> n \<noteq> ''..'')
              (mset (''.'' # [''..'', ''a.txt'', ''sub''])) = mset [''a.txt'', ''sub'']"
    by simp
  have h5: "opendir posix0 ''/d'' = None"
    by (simp add: opendir_def posix0_def)
  have h6: "FindFirstFile windows0 (''/d'' @ [CHR 0x5C, CHR ''*'']) = None"
    by (simp add: FindFirstFile_def windows0_def)
  note children = list_files_children [where files = "[''old'']" and pf = LINUX
      and os = "Posix LINUX posix0"]
  note c1 = children [THEN conjunct1, rule_format, OF h1 h2]
  note c2 = children [THEN conjunct2, THEN conjunct1, rule_format, OF h3 h4]
  note c3 = children [THEN conjunct2, THEN conjunct2, THEN conjunct2, THEN conjunct2,
      THEN conjunct1, rule_format, OF h5]
  note c4 = children [THEN conjunct2, THEN conjunct2, THEN conjunct2, THEN conjunct2,
      THEN conjunct2, rule_format, OF h6]
  from h1 h2 c1 h3 h4 c2 h5 c3 h6 c4 show ?thesis
    by (intro conjI) assumption+
qed

section \<open>Properties of the file-system queries\<close>


lemma memset_stat_no_type [simp]:
  "S_ISDIR (st_mode memset_stat) = 0" "S_ISREG (st_mode memset_stat) = 0"
  by (simp_all add: memset_stat_def S_ISDIR_def S_ISREG_def S_IFDIR_def S_IFREG_def)




text \<open>
  The POSIX bodies classify by the file-type bits that \<^verbatim>\<open>lstat\<close> reports for the
  entry itself, so a symbolic link is neither a directory nor a file there.
\<close>

lemma is_directory_posix_iff:
  "is_directory debug (Posix pf p) path = Inr True \<longleftrightarrow>
     (\<exists>f. pfiles p path = Some f \<and> st_mode (p_stat f) AND S_IFMT = S_IFDIR)"
  by (auto simp: lstat_def CE_ASSERT_def S_ISDIR_def S_ISLNK_def S_IFDIR_def S_IFLNK_def
      memset_stat_def S_IFMT_def split: option.splits if_splits)

lemma is_file_posix_iff:
  "is_file debug (Posix pf p) path = Inr True \<longleftrightarrow>
     (\<exists>f. pfiles p path = Some f \<and> st_mode (p_stat f) AND S_IFMT = S_IFREG)"
  by (auto simp: lstat_def CE_ASSERT_def S_ISREG_def S_ISLNK_def S_IFREG_def S_IFLNK_def
      memset_stat_def S_IFMT_def split: option.splits if_splits)

lemma posix_link_is_neither:
  "pfiles p path = Some f \<Longrightarrow> S_ISLNK (st_mode (p_stat f)) = 1 \<Longrightarrow>
     is_directory debug (Posix pf p) path = Inr False
     \<and> is_file debug (Posix pf p) path = Inr False"
  by (auto simp: lstat_def CE_ASSERT_def S_ISREG_def S_ISDIR_def S_ISLNK_def S_IFREG_def
      S_IFDIR_def S_IFLNK_def split: if_splits)

text \<open>
  C4 at its failing input: on Windows a symbolic link to a directory is classified as a
  directory and a symbolic link to a file as a file, for either setting of the
  assertions.
\<close>

theorem windows_links_classified:
  "GetFileAttributes windows_links ''C:/data/link_to_dir'' AND FILE_ATTRIBUTE_REPARSE_POINT
     \<noteq> 0
   \<and> is_directory debug (Windows windows_links) ''C:/data/link_to_dir'' = Inr True
   \<and> GetFileAttributes windows_links ''C:/data/link_to_file'' AND FILE_ATTRIBUTE_REPARSE_POINT
       \<noteq> 0
   \<and> is_file debug (Windows windows_links) ''C:/data/link_to_file'' = Inr True"
  by (simp add: windows_links_def windows0_def GetFileAttributes_def
      INVALID_FILE_ATTRIBUTES_def FILE_ATTRIBUTE_DIRECTORY_def
      FILE_ATTRIBUTE_REPARSE_POINT_def FILE_ATTRIBUTE_ARCHIVE_def)

section \<open>Properties of \<^verbatim>\<open>mtime\<close>\<close>




section \<open>Properties of \<^verbatim>\<open>create_file\<close>\<close>





section \<open>Properties of \<^verbatim>\<open>execute_process\<close>\<close>




section \<open>Properties of the environment, the clock and sleep\<close>

text \<open>The POSIX body of \<^verbatim>\<open>getenv\<close> is the lookup in the process environment.\<close>

lemma getenv_posix: "getenv (Posix pf p) name = environ p name"
  by simp

text \<open>
  C7 at its failing input: in a Windows build, \<^verbatim>\<open>getenv\<close> of a variable that the
  process environment sets to \<^verbatim>\<open>X\<close> returns the null pointer.
\<close>

theorem getenv_windows_set_variable:
  "wenviron windows_env ''CROWN_TEST'' = Some ''X''
   \<and> getenv (Windows windows_env) ''CROWN_TEST'' = None"
  by (simp add: windows_env_def windows0_def)

text \<open>
  The Linux body reads the monotonic clock: while its seconds fit 32 bits and its
  nanoseconds are below a second, a later reading of that clock gives a tick count that is
  not smaller.
\<close>

lemma clocktime_linux_value:
  assumes "unat (tv_sec (monotonic p)) < 2 ^ 32" "unat (tv_nsec (monotonic p)) < 1000000000"
  shows "sint (clocktime (Posix LINUX p)) =
           int (unat (tv_sec (monotonic p)) * 1000000000 + unat (tv_nsec (monotonic p)))"
proof -
  let ?s = "tv_sec (monotonic p)" and ?n = "tv_nsec (monotonic p)"
  have small: "signed_take_bit 63 (int k) = int k" if "k < 2 ^ 63" for k :: nat
  proof (rule signed_take_bit_int_eq_self)
    show "- (2 ^ 63) \<le> int k" by simp
    from that have "int k < int (2 ^ 63)" by (simp only: of_nat_less_iff)
    then show "int k < 2 ^ 63" by simp
  qed
  have bound: "unat ?s * 1000000000 + unat ?n < 2 ^ 63"
    using assms by simp
  have "unat ?s * unat (1000000000 :: 64 word) < 2 ^ LENGTH(64)"
    using assms by simp
  then have m: "unat (?s * 1000000000) = unat ?s * 1000000000"
    by (simp only: unat_mult_lem) simp
  have "unat (?s * 1000000000) + unat ?n < 2 ^ LENGTH(64)"
    using bound m by simp
  then have "unat (?s * 1000000000 + ?n) = unat (?s * 1000000000) + unat ?n"
    by (simp only: unat_add_lem)
  then have a: "unat (?s * 1000000000 + ?n) = unat ?s * 1000000000 + unat ?n"
    by (simp only: m)
  have "sint (?s * 1000000000 + ?n) = signed_take_bit 63 (uint (?s * 1000000000 + ?n))"
    by (simp add: sint_uint)
  also have "uint (?s * 1000000000 + ?n) = int (unat ?s * 1000000000 + unat ?n)"
    using a by (metis uint_nat)
  also have "signed_take_bit 63 (int (unat ?s * 1000000000 + unat ?n))
               = int (unat ?s * 1000000000 + unat ?n)"
    by (rule small) (rule bound)
  finally show ?thesis by (simp add: Let_def)
qed

lemma clocktime_linux_monotone:
  assumes "unat (tv_sec (monotonic p)) < 2 ^ 32" "unat (tv_nsec (monotonic p)) < 1000000000"
    and "unat (tv_sec (monotonic q)) < 2 ^ 32" "unat (tv_nsec (monotonic q)) < 1000000000"
    and "tv_sec (monotonic p) < tv_sec (monotonic q)
         \<or> tv_sec (monotonic p) = tv_sec (monotonic q)
           \<and> tv_nsec (monotonic p) \<le> tv_nsec (monotonic q)"
  shows "sint (clocktime (Posix LINUX p)) \<le> sint (clocktime (Posix LINUX q))"
proof -
  from assms(5) have
    "unat (tv_sec (monotonic p)) * 1000000000 + unat (tv_nsec (monotonic p))
       \<le> unat (tv_sec (monotonic q)) * 1000000000 + unat (tv_nsec (monotonic q))"
  proof
    assume "tv_sec (monotonic p) < tv_sec (monotonic q)"
    then have "Suc (unat (tv_sec (monotonic p))) \<le> unat (tv_sec (monotonic q))"
      by (simp add: word_less_nat_alt)
    then have "Suc (unat (tv_sec (monotonic p))) * 1000000000
                 \<le> unat (tv_sec (monotonic q)) * 1000000000"
      by (rule mult_le_mono1)
    with assms(2) show ?thesis by simp
  next
    assume "tv_sec (monotonic p) = tv_sec (monotonic q)
           \<and> tv_nsec (monotonic p) \<le> tv_nsec (monotonic q)"
    then show ?thesis by (simp add: word_le_nat_alt)
  qed
  then show ?thesis
    using assms(1-4) by (simp only: clocktime_linux_value)
qed

text \<open>
  C8 at its failing input: in an OS X build the second of two successive readings is
  smaller than the first when the wall clock was set back in between, although the
  monotonic clock of the machine went on; the Linux body, on the same two states, does
  not go back.
\<close>

theorem clocktime_osx_goes_back:
  "sint (clocktime (Posix OSX clock_before)) = 1500000100000000
   \<and> sint (clocktime (Posix OSX clock_after)) = 1500000040000000
   \<and> sint (clocktime (Posix OSX clock_after)) < sint (clocktime (Posix OSX clock_before))
   \<and> sint (clocktime (Posix LINUX clock_before)) = 10000000000
   \<and> sint (clocktime (Posix LINUX clock_after)) = 11500000000"
  by (simp add: clock_before_def clock_after_def posix0_def)

text \<open>
  Up to 4294967 milliseconds the POSIX body asks for the exact duration, and the Windows
  body always does.
\<close>

lemma sleep_posix_exact:
  "unat ms \<le> 4294967 \<Longrightarrow> microseconds (sleep (Posix pf p) ms) = unat ms * 1000"
proof -
  assume "unat ms \<le> 4294967"
  then have "unat ms * unat (1000 :: 32 word) < 2 ^ LENGTH(32)" by simp
  then have "unat (ms * 1000) = unat ms * unat (1000 :: 32 word)"
    by (simp only: unat_mult_lem)
  then show ?thesis by simp
qed

lemma sleep_windows_exact:
  "microseconds (sleep (Windows w) ms) = unat ms * 1000"
  by simp

text \<open>
  C9 at its failing input: in a POSIX build, \<^verbatim>\<open>sleep(4294968)\<close> hands 704
  microseconds to \<^verbatim>\<open>usleep\<close>, where 4294968 milliseconds are 4294968000
  microseconds: the 32-bit product \<^verbatim>\<open>ms * 1000\<close> has wrapped.
\<close>

theorem sleep_posix_wraps:
  "sleep (Posix pf p) 4294968 = usleep 704
   \<and> microseconds (sleep (Posix pf p) 4294968) = 704
   \<and> 1000 * unat (4294968 :: 32 word) = 4294968000"
  by simp

end
